theory Spec2Isabelle
  imports Complex_Main
begin

section \<open>Data model (types.ts)\<close>

text \<open>
  Strings are byte lists (UTF-8); numbers that the program only ever holds as integers
  (levels, indices, day numbers, counters, timestamps) are \<open>int\<close>. The fields of
  \<open>Question\<close>, \<open>QuizHistoryItem\<close> and \<open>StudyPlanDay\<close> carry the prefixes \<open>q_\<close>,
  \<open>hi_\<close> and \<open>pd_\<close>, since several interfaces share field names (\<open>topic\<close>,
  \<open>correctIndex\<close>, \<open>status\<close>) and field names are global here.
\<close>

datatype error = Error string

record Question =
  q_text :: string
  q_options :: "string list"
  q_correctIndex :: int
  q_explanation :: string
  q_topicSubCategory :: string

record QuizHistoryItem =
  hi_question :: string
  hi_userAnswerIndex :: int
  hi_correctIndex :: int
  hi_isCorrect :: bool
  hi_timestamp :: int
  hi_difficultyBefore :: int
  hi_difficultyAfter :: int

datatype plan_status = Locked | Current | Completed

record StudyPlanDay =
  pd_day :: int
  pd_topic :: string
  pd_activities :: "string list"
  pd_focus :: string
  pd_status :: "plan_status option"

datatype AppStatus = IDLE | MATERIAL_VIEW | QUIZ | SUMMARY | ERROR

section \<open>Difficulty controller (App.tsx, calculateNewDifficulty)\<close>

text \<open>
  \<open>Math.round\<close> rounds to the nearest integer, a tie going up. The arithmetic of
  \<open>calculateNewDifficulty\<close> is carried out in exact rationals; lemma
  \<open>calculateNewDifficulty_rounding_stable\<close> below bounds what an inexact sum could change.
\<close>

definition Math_round :: "rat \<Rightarrow> int" where
  "Math_round x = \<lfloor>x + 1 / 2\<rfloor>"

definition calculateNewDifficulty :: "int \<Rightarrow> bool \<Rightarrow> int" where
  "calculateNewDifficulty current isCorrect =
    (if isCorrect then
       (let boost = max 2 (10 * (1 - of_int current / 110)) in
        min 100 (Math_round (of_int current + boost)))
     else
       (let penalty = max 3 (8 * (of_int current / 100)) in
        max 0 (Math_round (of_int current - penalty))))"

text \<open>
  The update rule in the words of the specification: the boost or the penalty is rounded
  on its own, then added to or subtracted from the level, and the result is clamped.
\<close>

definition nextLevel_spec :: "int \<Rightarrow> bool \<Rightarrow> int" where
  "nextLevel_spec current correct =
    (if correct then min 100 (current + max 2 (round (10 * (1 - of_int current / 110) :: rat)))
     else max 0 (current - max 3 (round (8 * of_int current / 100 :: rat))))"

section \<open>Content source wrapper (services/geminiService.ts, generateAdaptiveQuestions)\<close>

text \<open>
  The generative backend is outside the program. What lines 83 to 128 of the service can
  observe of one call is one of four outcomes: \<open>ai.models.generateContent\<close> rejects;
  the response has no text (undefined or empty); the text is not JSON, so \<open>JSON.parse\<close>
  throws; or the text parses to an array of questions. The prompt built from the topic,
  the level, the recent texts, the count and the source material only reaches the
  backend and is not modelled.
\<close>

datatype generateContent_outcome =
    Rejects error
  | NoText
  | BadJson string error
  | Json string "Question list"

definition fallbackQuestion :: Question where
  "fallbackQuestion =
    \<lparr> q_text = [CHR 0xE8, CHR 0x81, CHR 0x94, CHR 0xE7, CHR 0xB3, CHR 0xBB, CHR 0x20, CHR 0x41,
                CHR 0x49, CHR 0x20, CHR 0xE5, CHR 0xAF, CHR 0xBC, CHR 0xE5, CHR 0xB8, CHR 0x88,
                CHR 0xE6, CHR 0x97, CHR 0xB6, CHR 0xE9, CHR 0x81, CHR 0x87, CHR 0xE5, CHR 0x88,
                CHR 0xB0, CHR 0xE9, CHR 0x94, CHR 0x99, CHR 0xE8, CHR 0xAF, CHR 0xAF, CHR 0xE3,
                CHR 0x80, CHR 0x82, CHR 0xE8, CHR 0xAF, CHR 0xB7, CHR 0xE9, CHR 0x87, CHR 0x8D,
                CHR 0xE8, CHR 0xAF, CHR 0x95, CHR 0xE3, CHR 0x80, CHR 0x82],
      q_options =
        [[CHR 0xE9, CHR 0x87, CHR 0x8D, CHR 0xE8, CHR 0xAF, CHR 0x95],
         [CHR 0xE6, CHR 0xA3, CHR 0x80, CHR 0xE6, CHR 0x9F, CHR 0xA5, CHR 0xE7, CHR 0xBD,
          CHR 0x91, CHR 0xE7, CHR 0xBB, CHR 0x9C],
         [CHR 0xE9, CHR 0x87, CHR 0x8D, CHR 0xE6, CHR 0x96, CHR 0xB0, CHR 0xE5, CHR 0x8A,
          CHR 0xA0, CHR 0xE8, CHR 0xBD, CHR 0xBD],
         [CHR 0xE7, CHR 0xAD, CHR 0x89, CHR 0xE5, CHR 0xBE, CHR 0x85]],
      q_correctIndex = 0,
      q_explanation =
        [CHR 0xE7, CHR 0xBD, CHR 0x91, CHR 0xE7, CHR 0xBB, CHR 0x9C, CHR 0xE6, CHR 0x88,
         CHR 0x96, CHR 0x20, CHR 0x41, CHR 0x50, CHR 0x49, CHR 0x20, CHR 0xE5, CHR 0x87,
         CHR 0xBA, CHR 0xE7, CHR 0x8E, CHR 0xB0, CHR 0xE9, CHR 0x94, CHR 0x99, CHR 0xE8,
         CHR 0xAF, CHR 0xAF, CHR 0xE3, CHR 0x80, CHR 0x82],
      q_topicSubCategory =
        [CHR 0xE9, CHR 0x94, CHR 0x99, CHR 0xE8, CHR 0xAF, CHR 0xAF, CHR 0xE5, CHR 0xA4,
         CHR 0x84, CHR 0xE7, CHR 0x90, CHR 0x86] \<rparr>"

text \<open>The body of the \<open>try\<close> block: what it returns, or the error it throws.\<close>

definition generateAdaptiveQuestions_try :: "generateContent_outcome \<Rightarrow> error + Question list" where
  "generateAdaptiveQuestions_try outcome =
    (case outcome of
       Rejects e \<Rightarrow> Inl e
     | NoText \<Rightarrow> Inl (Error ''Empty response from AI'')
     | BadJson responseText e \<Rightarrow> Inl e
     | Json responseText questionsData \<Rightarrow> Inr questionsData)"

text \<open>
  The whole function: \<open>apiKey\<close> is the module constant \<open>process.env.API_KEY || ''\<close>.
  The key check stands before the \<open>try\<close>, so its error leaves the function; every
  error of the \<open>try\<close> block is caught and replaced by the one-element fallback batch.
  \<open>Inl\<close> is the rejected promise.
\<close>

definition generateAdaptiveQuestions :: "string \<Rightarrow> generateContent_outcome \<Rightarrow> error + Question list" where
  "generateAdaptiveQuestions apiKey outcome =
    (if apiKey = [] then Inl (Error ''API Key is missing.'')
     else (case generateAdaptiveQuestions_try outcome of
             Inl e \<Rightarrow> Inr [fallbackQuestion]
           | Inr questionsData \<Rightarrow> Inr questionsData))"

section \<open>Application state (App.tsx)\<close>

text \<open>
  One record holds the component's \<open>useState\<close> cells and the \<open>prefetchingRef\<close>
  reference. The cells of the text-selection popover (\<open>selectionPopup\<close>,
  \<open>explanationData\<close>) are left out: the handlers below only ever reset them.
  \<open>inflight\<close> is not a cell of the source: it lists the invocations of
  \<open>fetchQuestionsToQueue\<close> that are suspended at their \<open>await\<close>, each with the
  arguments it was called with, oldest first.
\<close>

record pending_fetch =
  pf_currentTopic :: string
  pf_currentDiff :: int
  pf_previousSubTopics :: "string list"
  pf_count :: int
  pf_isInitialLoad :: bool
  pf_sourceMaterial :: "string option"

record app_state =
  status :: AppStatus
  topic :: string
  difficulty :: int
  currentQuestion :: "Question option"
  history :: "QuizHistoryItem list"
  questionQueue :: "Question list"
  isLoadingInitial :: bool
  isPrefetching :: bool
  selectedOption :: "int option"
  feedbackShown :: bool
  streak :: int
  isCheckedIn :: bool
  showPlanModal :: bool
  studyPlan :: "StudyPlanDay list"
  isGeneratingPlan :: bool
  activePlanDay :: "int option"
  studyMaterial :: "string option"
  activeMaterialContext :: "string option"
  isLoadingMaterial :: bool
  currentDayFocus :: "(string \<times> string) option"
  prefetchingRef :: bool
  inflight :: "pending_fetch list"

definition initialState :: app_state where
  "initialState =
    \<lparr> status = IDLE, topic = [], difficulty = 50, currentQuestion = None, history = [],
      questionQueue = [], isLoadingInitial = False, isPrefetching = False,
      selectedOption = None, feedbackShown = False, streak = 0, isCheckedIn = False,
      showPlanModal = False, studyPlan = [], isGeneratingPlan = False, activePlanDay = None,
      studyMaterial = None, activeMaterialContext = None, isLoadingMaterial = False,
      currentDayFocus = None, prefetchingRef = False, inflight = [] \<rparr>"

subsection \<open>JavaScript idioms\<close>

text \<open>\<open>x || undefined\<close> on a string or null: the empty string is falsy.\<close>

definition or_undefined :: "string option \<Rightarrow> string option" where
  "or_undefined x = (case x of None \<Rightarrow> None | Some s \<Rightarrow> if s = [] then None else Some s)"

text \<open>A number or null used as a condition: null and 0 are falsy.\<close>

definition truthy_number :: "int option \<Rightarrow> bool" where
  "truthy_number x = (case x of None \<Rightarrow> False | Some n \<Rightarrow> n \<noteq> 0)"

text \<open>\<open>!s.trim()\<close>: the string is empty once its white space is stripped (the ASCII
  white-space bytes; the multi-byte Unicode spaces are not recognised here).\<close>

definition isWhiteSpace :: "char \<Rightarrow> bool" where
  "isWhiteSpace c = (c \<in> set [CHR 0x09, CHR 0x0A, CHR 0x0B, CHR 0x0C, CHR 0x0D, CHR 0x20])"

definition trim_is_empty :: "string \<Rightarrow> bool" where
  "trim_is_empty s = list_all isWhiteSpace s"

text \<open>\<open>xs.slice(-5)\<close>: the last five elements, or all of a shorter list.\<close>

definition slice_last5 :: "'a list \<Rightarrow> 'a list" where
  "slice_last5 xs = drop (length xs - 5) xs"

text \<open>The topic sent with a refill: \<open>currentDayFocus ? `${topic}: ${currentDayFocus.subTopic}` : topic\<close>.
  \<open>currentDayFocus\<close> is the pair of \<open>subTopic\<close> and \<open>focus\<close>, or null.\<close>

definition queryTopic :: "app_state \<Rightarrow> string" where
  "queryTopic s =
    (case currentDayFocus s of
       Some (subTopic, dayFocus) \<Rightarrow> topic s @ '': '' @ subTopic
     | None \<Rightarrow> topic s)"

subsection \<open>Prefetch queue: fetchQuestionsToQueue and the recovery effect\<close>

text \<open>
  \<open>fetchQuestionsToQueue\<close> is asynchronous. Its part before the \<open>await\<close> runs inside
  the calling handler; \<open>hist\<close> is the \<open>history\<close> its closure captured, that of the
  render in which the handler was created.
\<close>

definition fetchQuestionsToQueue ::
  "QuizHistoryItem list \<Rightarrow> string \<Rightarrow> int \<Rightarrow> int \<Rightarrow> bool \<Rightarrow> string option \<Rightarrow> app_state \<Rightarrow> app_state" where
  "fetchQuestionsToQueue hist currentTopic currentDiff count isInitialLoad sourceMaterial s =
    (if prefetchingRef s then s
     else
       (let s1 = s\<lparr>prefetchingRef := True\<rparr>;
            s2 = (if isInitialLoad then s1\<lparr>isLoadingInitial := True\<rparr>
                  else s1\<lparr>isPrefetching := True\<rparr>);
            previousSubTopics = map hi_question (slice_last5 hist)
        in s2\<lparr>inflight := inflight s2 @
              [\<lparr> pf_currentTopic = currentTopic, pf_currentDiff = currentDiff,
                 pf_previousSubTopics = previousSubTopics, pf_count = count,
                 pf_isInitialLoad = isInitialLoad, pf_sourceMaterial = sourceMaterial \<rparr>]\<rparr>))"

text \<open>
  The part after the \<open>await\<close>: \<open>result\<close> is what \<open>generateAdaptiveQuestions\<close>
  settled with. \<open>Inr\<close> continues the \<open>try\<close> block, \<open>Inl\<close> enters \<open>catch\<close>
  (which only logs); \<open>finally\<close> runs after both.
\<close>

definition fetchQuestionsToQueue_resume ::
  "pending_fetch \<Rightarrow> error + Question list \<Rightarrow> app_state \<Rightarrow> app_state" where
  "fetchQuestionsToQueue_resume pf result s =
    (let s1 = (case result of
                 Inl e \<Rightarrow> s
               | Inr newQuestions \<Rightarrow>
                   (let s' = s\<lparr>questionQueue := questionQueue s @ newQuestions\<rparr>
                    in if pf_isInitialLoad pf \<and> length newQuestions > 0
                       then s'\<lparr>currentQuestion := Some (newQuestions ! 0),
                               questionQueue := drop 1 newQuestions\<rparr>
                       else s'));
         s2 = (if pf_isInitialLoad pf then s1\<lparr>isLoadingInitial := False\<rparr>
               else s1\<lparr>isPrefetching := False\<rparr>)
     in s2\<lparr>prefetchingRef := False\<rparr>)"

text \<open>The effect on \<open>[questionQueue, isLoadingInitial]\<close>, run after a render.\<close>

definition recoveryEffect :: "app_state \<Rightarrow> app_state" where
  "recoveryEffect s =
    (if isLoadingInitial s \<and> length (questionQueue s) > 0
     then s\<lparr>currentQuestion := Some (questionQueue s ! 0),
             questionQueue := drop 1 (questionQueue s),
             isLoadingInitial := False\<rparr>
     else s)"

text \<open>The loading mode of the specification, read off the two loading flags.\<close>

datatype LoadingMode = Blocked | Background | Idle

definition loadingMode :: "app_state \<Rightarrow> LoadingMode" where
  "loadingMode s =
    (if isLoadingInitial s then Blocked else if isPrefetching s then Background else Idle)"

subsection \<open>Handlers\<close>

text \<open>
  Each handler maps the state of the render it was created in to the state after its
  updates. The writes to \<open>localStorage\<close> in \<open>handleCheckIn\<close> are not modelled.
\<close>

definition handleCheckIn :: "app_state \<Rightarrow> app_state" where
  "handleCheckIn s =
    (if isCheckedIn s then s
     else s\<lparr>streak := streak s + 1, isCheckedIn := True\<rparr>)"

definition startQuiz :: "string option \<Rightarrow> string option \<Rightarrow> app_state \<Rightarrow> app_state" where
  "startQuiz customTopic sourceMaterial s =
    (let finalTopic = (case or_undefined customTopic of Some t \<Rightarrow> t | None \<Rightarrow> topic s)
     in if trim_is_empty finalTopic then s
        else
          (let s1 = (if \<not> isCheckedIn s then handleCheckIn s else s);
               s2 = s1\<lparr>status := QUIZ, history := [], questionQueue := []\<rparr>
           in fetchQuestionsToQueue (history s) finalTopic (difficulty s) 5 True sourceMaterial s2))"

text \<open>\<open>handleCreatePlan\<close> up to its \<open>await\<close>, and its continuation with the
  settled result of \<open>generateStudyPlan\<close>.\<close>

definition handleCreatePlan :: "app_state \<Rightarrow> app_state" where
  "handleCreatePlan s =
    (if trim_is_empty (topic s) then s
     else s\<lparr>isGeneratingPlan := True, showPlanModal := True\<rparr>)"

definition handleCreatePlan_resume :: "error + StudyPlanDay list \<Rightarrow> app_state \<Rightarrow> app_state" where
  "handleCreatePlan_resume result s =
    (let s1 = (case result of
                 Inl e \<Rightarrow> s
               | Inr rawPlan \<Rightarrow>
                   s\<lparr>studyPlan :=
                       map (\<lambda>(index, d). d\<lparr>pd_status := Some (if index = 0 then Current else Locked)\<rparr>)
                           (enumerate 0 rawPlan)\<rparr>)
     in s1\<lparr>isGeneratingPlan := False\<rparr>)"

definition materialFailedText :: string where
  "materialFailedText =
    [CHR 0xE5, CHR 0x8A, CHR 0xA0, CHR 0xE8, CHR 0xBD, CHR 0xBD, CHR 0xE5, CHR 0xAD, CHR 0xA6,
     CHR 0xE4, CHR 0xB9, CHR 0xA0, CHR 0xE6, CHR 0x9D, CHR 0x90, CHR 0xE6, CHR 0x96, CHR 0x99,
     CHR 0xE5, CHR 0xA4, CHR 0xB1, CHR 0xE8, CHR 0xB4, CHR 0xA5, CHR 0xE3, CHR 0x80, CHR 0x82,
     CHR 0xE8, CHR 0xAF, CHR 0xB7, CHR 0xE7, CHR 0x9B, CHR 0xB4, CHR 0xE6, CHR 0x8E, CHR 0xA5,
     CHR 0xE5, CHR 0xB0, CHR 0x9D, CHR 0xE8, CHR 0xAF, CHR 0x95, CHR 0xE7, CHR 0xAD, CHR 0x94,
     CHR 0xE9, CHR 0xA2, CHR 0x98, CHR 0xE3, CHR 0x80, CHR 0x82]"

text \<open>\<open>handleStartPlanDay\<close> up to its \<open>await\<close>, and its continuation with the
  settled result of \<open>generateStudyMaterial\<close> (the markdown of the material).\<close>

definition handleStartPlanDay :: "StudyPlanDay \<Rightarrow> app_state \<Rightarrow> app_state" where
  "handleStartPlanDay d s =
    (if pd_status d = Some Locked then s
     else s\<lparr>activePlanDay := Some (pd_day d), showPlanModal := False, isLoadingMaterial := True,
             status := MATERIAL_VIEW, studyMaterial := None, activeMaterialContext := None,
             currentDayFocus := Some (pd_topic d, pd_focus d)\<rparr>)"

definition handleStartPlanDay_resume :: "error + string \<Rightarrow> app_state \<Rightarrow> app_state" where
  "handleStartPlanDay_resume result s =
    (let s1 = (case result of
                 Inr markdown \<Rightarrow> s\<lparr>studyMaterial := Some markdown,
                                     activeMaterialContext := Some markdown\<rparr>
               | Inl e \<Rightarrow> s\<lparr>studyMaterial := Some materialFailedText\<rparr>)
     in s1\<lparr>isLoadingMaterial := False\<rparr>)"

definition resetApp :: "app_state \<Rightarrow> app_state" where
  "resetApp s =
    s\<lparr>status := IDLE, topic := [], history := [], difficulty := 50, currentQuestion := None,
      questionQueue := [], studyMaterial := None, activeMaterialContext := None,
      currentDayFocus := None, studyPlan := [], activePlanDay := None\<rparr>"

definition handleCompletePlanDay :: "app_state \<Rightarrow> app_state" where
  "handleCompletePlanDay s =
    (case activePlanDay s of
       None \<Rightarrow> resetApp s
     | Some k \<Rightarrow>
         (let updatedPlan =
                map (\<lambda>d. if pd_day d = k then d\<lparr>pd_status := Some Completed\<rparr>
                         else if pd_day d = k + 1 then d\<lparr>pd_status := Some Current\<rparr>
                         else d)
                    (studyPlan s)
          in s\<lparr>studyPlan := updatedPlan, activePlanDay := None, status := IDLE, history := [],
                currentQuestion := None, activeMaterialContext := None, showPlanModal := True\<rparr>))"

text \<open>\<open>now\<close> is the value of \<open>Date.now()\<close>.\<close>

definition handleAnswer :: "int \<Rightarrow> int \<Rightarrow> app_state \<Rightarrow> app_state" where
  "handleAnswer index now s =
    (if feedbackShown s then s
     else
       (let s1 = s\<lparr>selectedOption := Some index, feedbackShown := True\<rparr>
        in case currentQuestion s of
             None \<Rightarrow> s1
           | Some q \<Rightarrow>
               (let isCorrect = (index = q_correctIndex q);
                    newDifficulty = calculateNewDifficulty (difficulty s) isCorrect;
                    historyItem =
                      \<lparr> hi_question = q_text q, hi_userAnswerIndex = index,
                        hi_correctIndex = q_correctIndex q, hi_isCorrect = isCorrect,
                        hi_timestamp = now, hi_difficultyBefore = difficulty s,
                        hi_difficultyAfter = newDifficulty \<rparr>;
                    s2 = s1\<lparr>history := history s1 @ [historyItem], difficulty := newDifficulty\<rparr>
                in if length (questionQueue s) \<le> 4 \<and> \<not> prefetchingRef s
                   then fetchQuestionsToQueue (history s) (queryTopic s) newDifficulty 5 False
                          (or_undefined (activeMaterialContext s)) s2
                   else s2)))"

definition handleNext :: "app_state \<Rightarrow> app_state" where
  "handleNext s =
    (let s1 = s\<lparr>feedbackShown := False, selectedOption := None\<rparr>
     in if length (questionQueue s) > 0
        then s1\<lparr>currentQuestion := Some (questionQueue s ! 0),
                questionQueue := drop 1 (questionQueue s1)\<rparr>
        else fetchQuestionsToQueue (history s) (queryTopic s) (difficulty s) 5 True
               (or_undefined (activeMaterialContext s)) (s1\<lparr>isLoadingInitial := True\<rparr>))"

text \<open>The retry button shown when no question could be loaded.\<close>

definition retry_onClick :: "app_state \<Rightarrow> app_state" where
  "retry_onClick s =
    fetchQuestionsToQueue (history s) (topic s) (difficulty s) 5 True
      (or_undefined (activeMaterialContext s)) s"

text \<open>
  The two buttons of \<open>renderQuiz\<close> that lead to \<open>handleCompletePlanDay\<close>. The one
  in the side column (labelled as giving up and returning to the plan) is always
  rendered with \<open>onClick={activePlanDay ? handleCompletePlanDay : resetApp}\<close>. The one
  beside the next-question button (labelled as completing the day) is rendered inside the
  feedback section, under \<open>activePlanDay && history.length >= 3\<close>.
\<close>

definition sidebarExit_onClick :: "app_state \<Rightarrow> app_state" where
  "sidebarExit_onClick s =
    (if truthy_number (activePlanDay s) then handleCompletePlanDay s else resetApp s)"

definition completeDayButton_rendered :: "app_state \<Rightarrow> bool" where
  "completeDayButton_rendered s =
    (status s = QUIZ \<and> \<not> isLoadingInitial s \<and> currentQuestion s \<noteq> None \<and> feedbackShown s
     \<and> truthy_number (activePlanDay s) \<and> length (history s) \<ge> 3)"

section \<open>The component as a transition system\<close>

text \<open>
  An event is a handler call or the resumption of a suspended asynchronous handler. The
  updates of one event are applied together; the effect runs on the state so rendered.
  Every handler may be called in every state: the interface offers fewer calls than that,
  so the set \<open>reachable\<close> contains every state the component can be in.
  \<open>FetchResume\<close> resumes the oldest suspended \<open>fetchQuestionsToQueue\<close>.
\<close>

datatype event =
    SetTopic string
  | StreakLoaded bool int
  | CheckIn
  | StartQuiz "string option" "string option"
  | CreatePlan
  | CreatePlanResume "error + StudyPlanDay list"
  | StartPlanDay StudyPlanDay
  | StartPlanDayResume "error + string"
  | CompletePlanDay
  | SidebarExit
  | Answer int int
  | Next
  | Reset
  | Retry
  | SetShowPlanModal bool
  | FetchResume "error + Question list"

fun handle :: "event \<Rightarrow> app_state \<Rightarrow> app_state" where
  "handle (SetTopic t) s = s\<lparr>topic := t\<rparr>"
| "handle (StreakLoaded c n) s = s\<lparr>isCheckedIn := c, streak := n\<rparr>"
| "handle CheckIn s = handleCheckIn s"
| "handle (StartQuiz customTopic sourceMaterial) s = startQuiz customTopic sourceMaterial s"
| "handle CreatePlan s = handleCreatePlan s"
| "handle (CreatePlanResume result) s = handleCreatePlan_resume result s"
| "handle (StartPlanDay d) s = handleStartPlanDay d s"
| "handle (StartPlanDayResume result) s = handleStartPlanDay_resume result s"
| "handle CompletePlanDay s = handleCompletePlanDay s"
| "handle SidebarExit s = sidebarExit_onClick s"
| "handle (Answer index now) s = handleAnswer index now s"
| "handle Next s = handleNext s"
| "handle Reset s = resetApp s"
| "handle Retry s = retry_onClick s"
| "handle (SetShowPlanModal b) s = s\<lparr>showPlanModal := b\<rparr>"
| "handle (FetchResume result) s =
     (case inflight s of
        [] \<Rightarrow> s
      | pf # rest \<Rightarrow> fetchQuestionsToQueue_resume pf result (s\<lparr>inflight := rest\<rparr>))"

definition step :: "event \<Rightarrow> app_state \<Rightarrow> app_state" where
  "step e s = recoveryEffect (handle e s)"

fun run :: "event list \<Rightarrow> app_state \<Rightarrow> app_state" where
  "run [] s = s"
| "run (e # es) s = run es (step e s)"

inductive reachable :: "app_state \<Rightarrow> bool" where
  reachable_init: "reachable initialState"
| reachable_step: "reachable s \<Longrightarrow> reachable (step e s)"

text \<open>
  The single-flight invariant: the guard is set exactly while an invocation is suspended,
  at most one is, and the background indicator is on only while that one is a refill.
\<close>

definition flight_inv :: "app_state \<Rightarrow> bool" where
  "flight_inv s =
    ((prefetchingRef s \<longleftrightarrow> inflight s \<noteq> []) \<and> length (inflight s) \<le> 1
     \<and> (isPrefetching s \<longrightarrow>
          inflight s \<noteq> [] \<and> list_all (\<lambda>pf. \<not> pf_isInitialLoad pf) (inflight s)))"

section \<open>Rounding and the difficulty rule\<close>

lemma Math_round_add_int: "Math_round (of_int c + y) = c + Math_round y"
proof -
  have "of_int c + y + 1 / 2 = of_int c + (y + 1 / 2)" by simp
  then show ?thesis unfolding Math_round_def by (simp only: int_add_floor)
qed

lemma Math_round_mono: "x \<le> y \<Longrightarrow> Math_round x \<le> Math_round y"
  unfolding Math_round_def by (rule floor_mono) simp

lemma Math_round_numeral: "Math_round (numeral n) = numeral n"
  unfolding Math_round_def by (simp add: floor_eq_iff)

lemma Math_round_max: "Math_round (max (numeral n) y) = max (numeral n) (Math_round y)"
proof (cases "numeral n \<le> y")
  case True
  from Math_round_mono [OF True] show ?thesis
    using True by (simp add: max_def Math_round_numeral)
next
  case False
  then have "y \<le> numeral n" by simp
  from Math_round_mono [OF this] show ?thesis
    using False by (simp add: max_def Math_round_numeral)
qed

lemma Math_round_neg:
  assumes "x + 1 / 2 \<notin> \<int>"
  shows "Math_round (- x) = - Math_round x"
proof -
  define k where "k = \<lfloor>x + 1 / 2\<rfloor>"
  have le: "of_int k \<le> x + 1 / 2" and lt: "x + 1 / 2 < of_int k + 1"
    unfolding k_def by linarith+
  have "of_int k \<noteq> x + 1 / 2" using assms by (metis Ints_of_int)
  with le have "of_int k < x + 1 / 2" by simp
  with lt have "\<lfloor>- x + 1 / 2\<rfloor> = - k"
    by (intro floor_unique) simp_all
  then show ?thesis by (simp add: Math_round_def k_def)
qed

lemma Math_round_sub:
  assumes "y + 1 / 2 \<notin> \<int>"
  shows "Math_round (of_int c - y) = c - Math_round y"
proof -
  have "of_int c - y = of_int c + (- y)" by simp
  then have "Math_round (of_int c - y) = c + Math_round (- y)"
    by (simp only: Math_round_add_int)
  with Math_round_neg [OF assms] show ?thesis by simp
qed

text \<open>The penalty \<open>8 * (current / 100)\<close> of an integer level is never half-way
  between two integers: \<open>4 * current + 25\<close> is odd.\<close>

lemma penalty_no_tie: "8 * ((of_int c :: rat) / 100) + 1 / 2 \<notin> \<int>"
proof
  assume "8 * ((of_int c :: rat) / 100) + 1 / 2 \<in> \<int>"
  then obtain n :: int where "8 * ((of_int c :: rat) / 100) + 1 / 2 = of_int n"
    by (auto elim: Ints_cases)
  then have "(of_int (4 * c + 25) :: rat) = of_int (50 * n)"
    by (simp add: field_simps)
  then have "4 * c + 25 = 50 * n" by (simp only: of_int_eq_iff)
  then show False by presburger
qed

lemma three_no_tie: "(3::rat) + 1 / 2 \<notin> \<int>"
proof
  assume "(3::rat) + 1 / 2 \<in> \<int>"
  then obtain n :: int where "(3::rat) + 1 / 2 = of_int n"
    by (auto elim: Ints_cases)
  then have "(of_int 7 :: rat) = of_int (2 * n)" by (simp add: field_simps)
  then have "7 = 2 * n" by (simp only: of_int_eq_iff)
  then show False by presburger
qed

lemma max_penalty_no_tie: "max 3 (8 * ((of_int c :: rat) / 100)) + 1 / 2 \<notin> \<int>"
  using penalty_no_tie [of c] three_no_tie by (simp only: max_def split: if_splits) simp

lemma round_is_Math_round: "round x = Math_round x"
  by (simp only: round_def Math_round_def)

lemma calculateNewDifficulty_correct_eq:
  "calculateNewDifficulty c True = nextLevel_spec c True"
  by (simp only: calculateNewDifficulty_def nextLevel_spec_def Let_def if_True
      Math_round_add_int Math_round_max round_is_Math_round)

lemma calculateNewDifficulty_incorrect_eq:
  "calculateNewDifficulty c False = nextLevel_spec c False"
proof -
  have p: "(8 * of_int c / 100 :: rat) = 8 * (of_int c / 100)" by simp
  show ?thesis
    by (simp only: calculateNewDifficulty_def nextLevel_spec_def Let_def if_False
        Math_round_sub [OF max_penalty_no_tie] Math_round_max round_is_Math_round p)
qed

lemma Math_round_ge: "of_int z \<le> x \<Longrightarrow> z \<le> Math_round x"
  unfolding Math_round_def by (simp add: le_floor_iff)

lemma Math_round_le:
  assumes "x \<le> of_int z"
  shows "Math_round x \<le> z"
proof -
  from assms have "x + 1 / 2 < of_int (z + 1)" by simp
  then have "\<lfloor>x + 1 / 2\<rfloor> < z + 1" by (simp only: floor_less_iff)
  then show ?thesis by (simp add: Math_round_def)
qed

lemma correct_ge: "min 100 (c + 2) \<le> calculateNewDifficulty c True"
proof -
  have "(of_int (c + 2) :: rat) \<le> of_int c + max 2 (10 * (1 - of_int c / 110))" by simp
  from Math_round_ge [OF this] show ?thesis
    by (simp add: calculateNewDifficulty_def Let_def)
qed

lemma incorrect_le: "calculateNewDifficulty c False \<le> max 0 (c - 3)"
proof -
  have "of_int c - max 3 (8 * (of_int c / 100)) \<le> (of_int (c - 3) :: rat)" by simp
  from Math_round_le [OF this] show ?thesis
    by (simp add: calculateNewDifficulty_def Let_def)
qed

lemma correct_le: "calculateNewDifficulty c True \<le> 100"
  by (simp add: calculateNewDifficulty_def Let_def)

lemma incorrect_ge: "0 \<le> calculateNewDifficulty c False"
  by (simp add: calculateNewDifficulty_def Let_def)

lemma calculateNewDifficulty_examples:
  "calculateNewDifficulty 50 True = 55 \<and> calculateNewDifficulty 55 False = 51"
  by (simp add: calculateNewDifficulty_def Math_round_def Let_def floor_eq_iff)

text \<open>
  The source computes in double-precision numbers. The value handed to \<open>Math.round\<close> is
  an integer level plus a multiple of 1/11, or minus a multiple of 1/25, so it stays at
  least 1/50 away from a rounding tie: an error below 1/50 in that value, far more than
  double precision produces on levels in [0,100], does not change the result.
\<close>

lemma Math_round_stable:
  assumes lo: "of_int k + d \<le> x + 1 / 2" and hi: "x + 1 / 2 \<le> of_int k + 1 - d"
    and e: "\<bar>e\<bar> < d"
  shows "Math_round (x + e) = k \<and> Math_round x = k"
proof -
  from e have d: "0 < d" and e1: "- d < e" and e2: "e < d" by linarith+
  have "of_int k \<le> x + e + 1 / 2" using lo e1 by linarith
  moreover have "x + e + 1 / 2 < of_int k + 1" using hi e2 by linarith
  ultimately have a: "\<lfloor>x + e + 1 / 2\<rfloor> = k" by (rule floor_unique)
  have "of_int k \<le> x + 1 / 2" using lo d by linarith
  moreover have "x + 1 / 2 < of_int k + 1" using hi d by linarith
  ultimately have b: "\<lfloor>x + 1 / 2\<rfloor> = k" by (rule floor_unique)
  from a b show ?thesis by (simp add: Math_round_def)
qed

lemma odd_div_margin:
  fixes n :: int
  assumes "odd n" and "even m" and "0 < m"
  shows "m * (n div m) + 1 \<le> n \<and> n \<le> m * (n div m) + (m - 1)"
proof -
  have eq: "n = m * (n div m) + n mod m" by simp
  have r: "0 \<le> n mod m" "n mod m < m" using assms(3) by simp_all
  have "n mod m \<noteq> 0"
  proof
    assume "n mod m = 0"
    then have "m dvd n" by (simp add: dvd_eq_mod_eq_0)
    with assms(2) have "even n" using dvd_trans by blast
    with assms(1) show False by simp
  qed
  with r eq show ?thesis by linarith
qed

lemma boost_margin:
  "\<exists>k::int. of_int k + 1 / 22 \<le> (of_int c + max 2 (10 * (1 - of_int c / 110)) :: rat) + 1 / 2
     \<and> (of_int c + max 2 (10 * (1 - of_int c / 110)) :: rat) + 1 / 2 \<le> of_int k + 1 - 1 / 22"
proof (cases "(2::rat) \<le> 10 * (1 - of_int c / 110)")
  case True
  define n where "n = 20 * c + 231"
  have "odd n" by (simp add: n_def)
  from odd_div_margin [OF this, of 22]
  have b: "22 * (n div 22) + 1 \<le> n" "n \<le> 22 * (n div 22) + 21" by simp_all
  have x: "(of_int c + max 2 (10 * (1 - of_int c / 110)) :: rat) + 1 / 2 = of_int n / 22"
    using True by (simp add: max_def n_def field_simps)
  have "(of_int (22 * (n div 22) + 1) :: rat) \<le> of_int n"
    and "(of_int n :: rat) \<le> of_int (22 * (n div 22) + 21)"
    using b by (simp_all only: of_int_le_iff)
  then have "of_int (n div 22) + 1 / 22 \<le> (of_int n / 22 :: rat)"
    and "(of_int n / 22 :: rat) \<le> of_int (n div 22) + 1 - 1 / 22"
    by (simp_all add: field_simps)
  with x show ?thesis by (intro exI [of _ "n div 22"]) simp
next
  case False
  then have "(of_int c + max 2 (10 * (1 - of_int c / 110)) :: rat) + 1 / 2 = of_int (c + 2) + 1 / 2"
    by (simp add: max_def)
  then show ?thesis by (intro exI [of _ "c + 2"]) simp
qed

lemma penalty_margin:
  "\<exists>k::int. of_int k + 1 / 50 \<le> (of_int c - max 3 (8 * (of_int c / 100)) :: rat) + 1 / 2
     \<and> (of_int c - max 3 (8 * (of_int c / 100)) :: rat) + 1 / 2 \<le> of_int k + 1 - 1 / 50"
proof (cases "(3::rat) \<le> 8 * (of_int c / 100)")
  case True
  define n where "n = 46 * c + 25"
  have "odd n" by (simp add: n_def)
  from odd_div_margin [OF this, of 50]
  have b: "50 * (n div 50) + 1 \<le> n" "n \<le> 50 * (n div 50) + 49" by simp_all
  have x: "(of_int c - max 3 (8 * (of_int c / 100)) :: rat) + 1 / 2 = of_int n / 50"
    using True by (simp add: max_def n_def field_simps)
  have "(of_int (50 * (n div 50) + 1) :: rat) \<le> of_int n"
    and "(of_int n :: rat) \<le> of_int (50 * (n div 50) + 49)"
    using b by (simp_all only: of_int_le_iff)
  then have "of_int (n div 50) + 1 / 50 \<le> (of_int n / 50 :: rat)"
    and "(of_int n / 50 :: rat) \<le> of_int (n div 50) + 1 - 1 / 50"
    by (simp_all add: field_simps)
  with x show ?thesis by (intro exI [of _ "n div 50"]) simp
next
  case False
  then have "(of_int c - max 3 (8 * (of_int c / 100)) :: rat) + 1 / 2 = of_int (c - 3) + 1 / 2"
    by (simp add: max_def)
  then show ?thesis by (intro exI [of _ "c - 3"]) simp
qed

lemma calculateNewDifficulty_rounding_stable:
  assumes "\<bar>e\<bar> < 1 / 50"
  shows "min 100 (Math_round (of_int c + max 2 (10 * (1 - of_int c / 110)) + e))
           = calculateNewDifficulty c True
       \<and> max 0 (Math_round (of_int c - max 3 (8 * (of_int c / 100)) + e))
           = calculateNewDifficulty c False"
proof -
  from assms have e22: "\<bar>e\<bar> < 1 / 22" by simp
  from boost_margin [of c] obtain k where
    "of_int k + 1 / 22 \<le> (of_int c + max 2 (10 * (1 - of_int c / 110)) :: rat) + 1 / 2"
    "(of_int c + max 2 (10 * (1 - of_int c / 110)) :: rat) + 1 / 2 \<le> of_int k + 1 - 1 / 22"
    by blast
  from Math_round_stable [OF this e22]
  have t: "Math_round (of_int c + max 2 (10 * (1 - of_int c / 110)) + e)
             = Math_round (of_int c + max 2 (10 * (1 - of_int c / 110)))" by simp
  from penalty_margin [of c] obtain j where
    "of_int j + 1 / 50 \<le> (of_int c - max 3 (8 * (of_int c / 100)) :: rat) + 1 / 2"
    "(of_int c - max 3 (8 * (of_int c / 100)) :: rat) + 1 / 2 \<le> of_int j + 1 - 1 / 50"
    by blast
  from Math_round_stable [OF this assms]
  have f: "Math_round (of_int c - max 3 (8 * (of_int c / 100)) + e)
             = Math_round (of_int c - max 3 (8 * (of_int c / 100)))" by simp
  from t f show ?thesis by (simp add: calculateNewDifficulty_def Let_def)
qed

text \<open>
  C3. For every integer level \<open>current\<close> in [0,100] the code's result is the specified
  formula: on a correct answer \<open>min(100, current + max(2, round(10 * (1 - current/110))))\<close>,
  on an incorrect one \<open>max(0, current - max(3, round(8 * current/100)))\<close>, the rounding
  applied to the boost or penalty and the clamp last; and level 50 answered correctly
  gives 55, level 55 answered incorrectly gives 51.
\<close>

theorem calculateNewDifficulty_formula:
  assumes "0 \<le> current" and "current \<le> 100"
  shows "calculateNewDifficulty current True
           = min 100 (current + max 2 (round (10 * (1 - of_int current / 110) :: rat)))
       \<and> calculateNewDifficulty current False
           = max 0 (current - max 3 (round (8 * of_int current / 100 :: rat)))
       \<and> calculateNewDifficulty current isCorrect = nextLevel_spec current isCorrect
       \<and> calculateNewDifficulty 50 True = 55
       \<and> calculateNewDifficulty 55 False = 51"
proof -
  have t: "calculateNewDifficulty current True = nextLevel_spec current True"
    by (rule calculateNewDifficulty_correct_eq)
  have f: "calculateNewDifficulty current False = nextLevel_spec current False"
    by (rule calculateNewDifficulty_incorrect_eq)
  have b: "calculateNewDifficulty current isCorrect = nextLevel_spec current isCorrect"
    using t f by (cases isCorrect) simp_all
  from t f b calculateNewDifficulty_examples show ?thesis
    by (simp only: nextLevel_spec_def if_True if_False simp_thms)
qed

theorem calculateNewDifficulty_formula_witness:
  "(0::int) \<le> 73 \<and> (73::int) \<le> 100
   \<and> calculateNewDifficulty 73 True = nextLevel_spec 73 True
   \<and> calculateNewDifficulty 73 False = nextLevel_spec 73 False"
  using calculateNewDifficulty_formula [of 73 True] calculateNewDifficulty_formula [of 73 False]
  by simp

text \<open>
  C7. For every level \<open>L\<close> in [0,100] the next level lies in [0,100] for both outcomes;
  a correct answer strictly raises a level below 100 and keeps 100 at 100; an incorrect
  answer strictly lowers a level above 0 and keeps 0 at 0.
\<close>

theorem calculateNewDifficulty_bounded_monotone:
  assumes "0 \<le> L" and "L \<le> 100"
  shows "0 \<le> calculateNewDifficulty L b \<and> calculateNewDifficulty L b \<le> 100
       \<and> (L < 100 \<longrightarrow> L < calculateNewDifficulty L True)
       \<and> (L = 100 \<longrightarrow> calculateNewDifficulty L True = 100)
       \<and> (0 < L \<longrightarrow> calculateNewDifficulty L False < L)
       \<and> (L = 0 \<longrightarrow> calculateNewDifficulty L False = 0)"
proof -
  have up: "min 100 (L + 2) \<le> calculateNewDifficulty L True"
    and up_le: "calculateNewDifficulty L True \<le> 100"
    by (rule correct_ge, rule correct_le)
  have down: "calculateNewDifficulty L False \<le> max 0 (L - 3)"
    and down_ge: "0 \<le> calculateNewDifficulty L False"
    by (rule incorrect_le, rule incorrect_ge)
  have range: "0 \<le> calculateNewDifficulty L b \<and> calculateNewDifficulty L b \<le> 100"
  proof (cases b)
    case True
    with up up_le assms show ?thesis by simp
  next
    case False
    with down down_ge assms show ?thesis by simp
  qed
  from up up_le down down_ge assms range show ?thesis by auto
qed

theorem calculateNewDifficulty_bounded_monotone_witness:
  "50 < calculateNewDifficulty 50 True \<and> calculateNewDifficulty 50 True \<le> 100
   \<and> calculateNewDifficulty 100 True = 100
   \<and> 0 \<le> calculateNewDifficulty 50 False \<and> calculateNewDifficulty 50 False < 50
   \<and> calculateNewDifficulty 0 False = 0"
  using calculateNewDifficulty_bounded_monotone [of 50 True]
        calculateNewDifficulty_bounded_monotone [of 50 False]
        calculateNewDifficulty_bounded_monotone [of 100 True]
        calculateNewDifficulty_bounded_monotone [of 0 False]
  by simp

section \<open>Single flight\<close>

lemma flight_inv_cong:
  "prefetchingRef s' = prefetchingRef s \<Longrightarrow> inflight s' = inflight s
   \<Longrightarrow> isPrefetching s' = isPrefetching s \<Longrightarrow> flight_inv s' = flight_inv s"
  by (simp add: flight_inv_def)

lemma flight_inv_fetch:
  "flight_inv s \<Longrightarrow> flight_inv (fetchQuestionsToQueue hist t d n b m s)"
  by (auto simp: flight_inv_def fetchQuestionsToQueue_def Let_def)

lemma flight_inv_resume:
  assumes "flight_inv s" and "inflight s = pf # rest"
  shows "flight_inv (fetchQuestionsToQueue_resume pf result (s\<lparr>inflight := rest\<rparr>))"
  using assms
  by (cases rest)
     (auto simp: flight_inv_def fetchQuestionsToQueue_resume_def Let_def split: sum.splits)

lemma flight_inv_recoveryEffect: "flight_inv (recoveryEffect s) = flight_inv s"
  by (rule flight_inv_cong) (simp_all add: recoveryEffect_def)

lemma flight_inv_handleCheckIn: "flight_inv (handleCheckIn s) = flight_inv s"
  by (rule flight_inv_cong) (simp_all add: handleCheckIn_def)

lemma flight_inv_resetApp: "flight_inv (resetApp s) = flight_inv s"
  by (rule flight_inv_cong) (simp_all add: resetApp_def)

lemma flight_inv_handleCompletePlanDay: "flight_inv (handleCompletePlanDay s) = flight_inv s"
  by (rule flight_inv_cong)
     (simp_all add: handleCompletePlanDay_def resetApp_def Let_def split: option.splits)

lemma flight_inv_handleCreatePlan: "flight_inv (handleCreatePlan s) = flight_inv s"
  by (rule flight_inv_cong) (simp_all add: handleCreatePlan_def)

lemma flight_inv_handleCreatePlan_resume:
  "flight_inv (handleCreatePlan_resume r s) = flight_inv s"
  by (rule flight_inv_cong) (simp_all add: handleCreatePlan_resume_def Let_def split: sum.splits)

lemma flight_inv_handleStartPlanDay: "flight_inv (handleStartPlanDay d s) = flight_inv s"
  by (rule flight_inv_cong) (simp_all add: handleStartPlanDay_def)

lemma flight_inv_handleStartPlanDay_resume:
  "flight_inv (handleStartPlanDay_resume r s) = flight_inv s"
  by (rule flight_inv_cong)
     (simp_all add: handleStartPlanDay_resume_def Let_def split: sum.splits)

lemma flight_inv_startQuiz:
  assumes "flight_inv s"
  shows "flight_inv (startQuiz c m s)"
proof -
  have b: "flight_inv ((if \<not> isCheckedIn s then handleCheckIn s else s)
             \<lparr>status := QUIZ, history := [], questionQueue := []\<rparr>)"
    using assms by (simp add: flight_inv_def handleCheckIn_def)
  show ?thesis
    unfolding startQuiz_def Let_def
    using assms flight_inv_fetch [OF b] by simp
qed

lemma flight_inv_handleAnswer:
  assumes "flight_inv s"
  shows "flight_inv (handleAnswer i now s)"
proof -
  have u: "\<And>h d. flight_inv (s\<lparr>selectedOption := Some i, feedbackShown := True,
                                 history := h, difficulty := d\<rparr>)"
    using assms by (simp add: flight_inv_def)
  have v: "flight_inv (s\<lparr>selectedOption := Some i, feedbackShown := True\<rparr>)"
    using assms by (simp add: flight_inv_def)
  show ?thesis
    unfolding handleAnswer_def Let_def
    using assms u v flight_inv_fetch [OF u] by (simp split: option.splits)
qed

lemma flight_inv_handleNext:
  assumes "flight_inv s"
  shows "flight_inv (handleNext s)"
proof -
  have u: "flight_inv (s\<lparr>feedbackShown := False, selectedOption := None,
                          isLoadingInitial := True\<rparr>)"
    using assms by (simp add: flight_inv_def)
  have v: "\<And>c q. flight_inv (s\<lparr>feedbackShown := False, selectedOption := None,
                                 currentQuestion := c, questionQueue := q\<rparr>)"
    using assms by (simp add: flight_inv_def)
  show ?thesis
    unfolding handleNext_def Let_def
    using v flight_inv_fetch [OF u] by simp
qed

lemma flight_inv_handle:
  assumes inv: "flight_inv s"
  shows "flight_inv (handle e s)"
proof (cases e)
  case (FetchResume result)
  show ?thesis
  proof (cases "inflight s")
    case Nil
    with inv FetchResume show ?thesis by simp
  next
    case (Cons pf rest)
    with flight_inv_resume [OF inv Cons] FetchResume show ?thesis by simp
  qed
next
  case (SetTopic t)
  from inv show ?thesis unfolding SetTopic by (simp add: flight_inv_def)
next
  case (StreakLoaded c n)
  from inv show ?thesis unfolding StreakLoaded by (simp add: flight_inv_def)
next
  case (SetShowPlanModal b)
  from inv show ?thesis unfolding SetShowPlanModal by (simp add: flight_inv_def)
qed (use inv in \<open>simp_all add: flight_inv_handleCheckIn flight_inv_startQuiz flight_inv_resetApp
       flight_inv_handleCompletePlanDay flight_inv_handleAnswer flight_inv_handleNext
       flight_inv_fetch retry_onClick_def sidebarExit_onClick_def
       flight_inv_handleCreatePlan flight_inv_handleCreatePlan_resume
       flight_inv_handleStartPlanDay flight_inv_handleStartPlanDay_resume\<close>)

lemma flight_inv_step: "flight_inv s \<Longrightarrow> flight_inv (step e s)"
  by (simp add: step_def flight_inv_recoveryEffect flight_inv_handle)

lemma flight_inv_initial: "flight_inv initialState"
  by (simp add: flight_inv_def initialState_def)

lemma reachable_flight_inv: "reachable s \<Longrightarrow> flight_inv s"
  by (induction rule: reachable.induct) (simp_all add: flight_inv_initial flight_inv_step)

lemma reachable_run: "reachable s \<Longrightarrow> reachable (run es s)"
  by (induction es arbitrary: s) (simp_all add: reachable_step)

lemmas eval_defs = step_def recoveryEffect_def startQuiz_def handleCheckIn_def
  fetchQuestionsToQueue_def fetchQuestionsToQueue_resume_def handleAnswer_def handleNext_def
  initialState_def trim_is_empty_def isWhiteSpace_def or_undefined_def slice_last5_def
  queryTopic_def handleCreatePlan_def handleCreatePlan_resume_def handleStartPlanDay_def
  handleStartPlanDay_resume_def handleCompletePlanDay_def resetApp_def retry_onClick_def
  sidebarExit_onClick_def truthy_number_def Let_def

text \<open>
  C2. A call of \<open>fetchQuestionsToQueue\<close> made while the guard is set returns the state as
  it is (queue, guard and both loading flags with it), and in every reachable state at
  most one invocation is suspended at the content source, the guard being set exactly
  then.
\<close>

theorem single_flight:
  "(prefetchingRef s \<longrightarrow>
      fetchQuestionsToQueue hist currentTopic currentDiff count isInitialLoad sourceMaterial s = s)
   \<and> (reachable s \<longrightarrow> length (inflight s) \<le> 1 \<and> (prefetchingRef s \<longleftrightarrow> inflight s \<noteq> []))"
proof -
  have "reachable s \<Longrightarrow> length (inflight s) \<le> 1 \<and> (prefetchingRef s \<longleftrightarrow> inflight s \<noteq> [])"
    using reachable_flight_inv [of s] by (simp add: flight_inv_def)
  then show ?thesis by (auto simp: fetchQuestionsToQueue_def)
qed

theorem single_flight_witness:
  "prefetchingRef (run [SetTopic ''math'', StartQuiz None None] initialState)
   \<and> reachable (run [SetTopic ''math'', StartQuiz None None] initialState)
   \<and> fetchQuestionsToQueue [] ''math'' 50 5 False None
        (run [SetTopic ''math'', StartQuiz None None] initialState)
       = run [SetTopic ''math'', StartQuiz None None] initialState
   \<and> length (inflight (run [SetTopic ''math'', StartQuiz None None] initialState)) = 1"
proof -
  let ?s = "run [SetTopic ''math'', StartQuiz None None] initialState"
  have r: "reachable ?s" by (intro reachable_run reachable_init)
  have g: "prefetchingRef ?s" by (simp add: eval_defs)
  have n: "length (inflight ?s) = 1" by (simp add: eval_defs)
  from single_flight [of ?s "[]" "''math''" 50 5 False None] r g n show ?thesis
    by (simp only: simp_thms)
qed

section \<open>Recovery from the blocking wait\<close>

lemma recoveryEffect_settled:
  "\<not> (isLoadingInitial (recoveryEffect s) \<and> questionQueue (recoveryEffect s) \<noteq> [])"
  by (simp add: recoveryEffect_def)

lemma reachable_settled:
  "reachable s \<Longrightarrow> \<not> (isLoadingInitial s \<and> questionQueue s \<noteq> [])"
proof (induction rule: reachable.induct)
  case reachable_init
  show ?case by (simp add: initialState_def)
next
  case (reachable_step s e)
  show ?case unfolding step_def by (rule recoveryEffect_settled)
qed

text \<open>A rendered state that shows the blocking wait over a non-empty queue has no
  background indicator on.\<close>

lemma blocked_nonempty_not_prefetching:
  assumes inv: "flight_inv s"
    and settled: "\<not> (isLoadingInitial s \<and> questionQueue s \<noteq> [])"
    and blocked: "isLoadingInitial (handle e s)"
    and nonempty: "questionQueue (handle e s) \<noteq> []"
  shows "\<not> isPrefetching (handle e s)"
proof (cases e)
  case (FetchResume result)
  show ?thesis
  proof (cases "inflight s")
    case Nil
    with FetchResume settled blocked nonempty show ?thesis by simp
  next
    case (Cons pf rest)
    with inv have rest: "rest = []" and pf: "isPrefetching s \<longrightarrow> \<not> pf_isInitialLoad pf"
      by (auto simp: flight_inv_def)
    with FetchResume Cons blocked show ?thesis
      by (auto simp: fetchQuestionsToQueue_resume_def Let_def split: sum.splits if_splits)
  qed
next
  case (StartQuiz c m)
  with blocked nonempty settled show ?thesis
    by (auto simp: startQuiz_def fetchQuestionsToQueue_def Let_def split: if_splits)
next
  case (Answer i now)
  with blocked nonempty settled show ?thesis
    by (auto simp: handleAnswer_def fetchQuestionsToQueue_def Let_def
             split: if_splits option.splits)
next
  case Next
  with blocked nonempty settled show ?thesis
    by (auto simp: handleNext_def fetchQuestionsToQueue_def Let_def split: if_splits)
next
  case Retry
  with inv blocked nonempty settled show ?thesis
    by (auto simp: retry_onClick_def fetchQuestionsToQueue_def flight_inv_def Let_def
             split: if_splits)
next
  case Reset
  with nonempty show ?thesis by (simp add: resetApp_def)
next
  case CompletePlanDay
  with blocked nonempty settled show ?thesis
    by (auto simp: handleCompletePlanDay_def resetApp_def Let_def split: option.splits)
next
  case SidebarExit
  with blocked nonempty settled show ?thesis
    by (auto simp: sidebarExit_onClick_def handleCompletePlanDay_def resetApp_def Let_def
             split: option.splits if_splits)
next
  case CheckIn
  with blocked nonempty settled show ?thesis
    by (auto simp: handleCheckIn_def split: if_splits)
next
  case CreatePlan
  with blocked nonempty settled show ?thesis
    by (auto simp: handleCreatePlan_def split: if_splits)
next
  case (CreatePlanResume r)
  with blocked nonempty settled show ?thesis
    by (auto simp: handleCreatePlan_resume_def Let_def split: sum.splits)
next
  case (StartPlanDay d)
  with blocked nonempty settled show ?thesis
    by (auto simp: handleStartPlanDay_def split: if_splits)
next
  case (StartPlanDayResume r)
  with blocked nonempty settled show ?thesis
    by (auto simp: handleStartPlanDay_resume_def Let_def split: sum.splits)
next
  case (SetTopic t)
  with blocked nonempty settled show ?thesis by simp
next
  case (StreakLoaded c n)
  with blocked nonempty settled show ?thesis by simp
next
  case (SetShowPlanModal b)
  with blocked nonempty settled show ?thesis by simp
qed

text \<open>
  C1. Whenever an event leaves the component rendering the blocking wait
  (\<open>isLoadingInitial\<close>) over a non-empty queue, the effect that follows pops the front
  of the queue into \<open>currentQuestion\<close> and leaves the loading mode Idle, and it issues no
  fetch: the suspended invocations and the guard are as the event left them.
\<close>

theorem stuck_blocking_recovery:
  assumes "reachable s"
    and "isLoadingInitial (handle e s)" and "questionQueue (handle e s) \<noteq> []"
  shows "currentQuestion (step e s) = Some (hd (questionQueue (handle e s)))
       \<and> questionQueue (step e s) = tl (questionQueue (handle e s))
       \<and> loadingMode (step e s) = Idle
       \<and> inflight (step e s) = inflight (handle e s)
       \<and> prefetchingRef (step e s) = prefetchingRef (handle e s)"
proof -
  from assms(1) have inv: "flight_inv s" by (rule reachable_flight_inv)
  from assms(1) have settled: "\<not> (isLoadingInitial s \<and> questionQueue s \<noteq> [])"
    by (rule reachable_settled)
  have np: "\<not> isPrefetching (handle e s)"
    by (rule blocked_nonempty_not_prefetching [OF inv settled assms(2) assms(3)])
  from assms(3) obtain q rest where q: "questionQueue (handle e s) = q # rest"
    by (cases "questionQueue (handle e s)") auto
  with assms(2) np show ?thesis
    by (simp add: step_def recoveryEffect_def loadingMode_def)
qed

text \<open>The witness: a refill is in flight, the user asks for the next question on an
  empty queue (the blocking request is dropped), then the refill arrives.\<close>

theorem stuck_blocking_recovery_witness:
  "reachable (run [SetTopic ''math'', StartQuiz None None,
                   FetchResume (Inr [fallbackQuestion\<lparr>q_text := ''Q1''\<rparr>]), Answer 0 0, Next]
                initialState)
   \<and> loadingMode (handle (FetchResume (Inr [fallbackQuestion\<lparr>q_text := ''Q2''\<rparr>,
                                            fallbackQuestion\<lparr>q_text := ''Q3''\<rparr>]))
        (run [SetTopic ''math'', StartQuiz None None,
              FetchResume (Inr [fallbackQuestion\<lparr>q_text := ''Q1''\<rparr>]), Answer 0 0, Next]
           initialState)) = Blocked
   \<and> questionQueue (handle (FetchResume (Inr [fallbackQuestion\<lparr>q_text := ''Q2''\<rparr>,
                                              fallbackQuestion\<lparr>q_text := ''Q3''\<rparr>]))
        (run [SetTopic ''math'', StartQuiz None None,
              FetchResume (Inr [fallbackQuestion\<lparr>q_text := ''Q1''\<rparr>]), Answer 0 0, Next]
           initialState))
       = [fallbackQuestion\<lparr>q_text := ''Q2''\<rparr>, fallbackQuestion\<lparr>q_text := ''Q3''\<rparr>]
   \<and> currentQuestion (step (FetchResume (Inr [fallbackQuestion\<lparr>q_text := ''Q2''\<rparr>,
                                              fallbackQuestion\<lparr>q_text := ''Q3''\<rparr>]))
        (run [SetTopic ''math'', StartQuiz None None,
              FetchResume (Inr [fallbackQuestion\<lparr>q_text := ''Q1''\<rparr>]), Answer 0 0, Next]
           initialState))
       = Some (fallbackQuestion\<lparr>q_text := ''Q2''\<rparr>)
   \<and> questionQueue (step (FetchResume (Inr [fallbackQuestion\<lparr>q_text := ''Q2''\<rparr>,
                                            fallbackQuestion\<lparr>q_text := ''Q3''\<rparr>]))
        (run [SetTopic ''math'', StartQuiz None None,
              FetchResume (Inr [fallbackQuestion\<lparr>q_text := ''Q1''\<rparr>]), Answer 0 0, Next]
           initialState))
       = [fallbackQuestion\<lparr>q_text := ''Q3''\<rparr>]
   \<and> loadingMode (step (FetchResume (Inr [fallbackQuestion\<lparr>q_text := ''Q2''\<rparr>,
                                          fallbackQuestion\<lparr>q_text := ''Q3''\<rparr>]))
        (run [SetTopic ''math'', StartQuiz None None,
              FetchResume (Inr [fallbackQuestion\<lparr>q_text := ''Q1''\<rparr>]), Answer 0 0, Next]
           initialState))
       = Idle"
proof -
  let ?s = "run [SetTopic ''math'', StartQuiz None None,
                 FetchResume (Inr [fallbackQuestion\<lparr>q_text := ''Q1''\<rparr>]), Answer 0 0, Next]
              initialState"
  let ?e = "FetchResume (Inr [fallbackQuestion\<lparr>q_text := ''Q2''\<rparr>,
                              fallbackQuestion\<lparr>q_text := ''Q3''\<rparr>])"
  have r: "reachable ?s" by (intro reachable_run reachable_init)
  have b: "isLoadingInitial (handle ?e ?s)" by (simp add: eval_defs)
  have q: "questionQueue (handle ?e ?s)
             = [fallbackQuestion\<lparr>q_text := ''Q2''\<rparr>, fallbackQuestion\<lparr>q_text := ''Q3''\<rparr>]"
    by (simp add: eval_defs)
  then have n: "questionQueue (handle ?e ?s) \<noteq> []" by simp
  from stuck_blocking_recovery [OF r b n] r b q show ?thesis
    by (simp add: loadingMode_def)
qed

section \<open>Fetch completion\<close>

text \<open>
  C10. When a blocking (initial-load) fetch succeeds with a non-empty batch, the current
  question becomes the first element of the batch and the queue becomes exactly the rest
  of the batch, whatever the queue held before; the effect that follows changes nothing.
\<close>

theorem blocking_fetch_replaces_queue:
  assumes "pf_isInitialLoad pf" and "newQuestions \<noteq> []"
  shows "currentQuestion (fetchQuestionsToQueue_resume pf (Inr newQuestions) s)
           = Some (hd newQuestions)
       \<and> questionQueue (fetchQuestionsToQueue_resume pf (Inr newQuestions) s) = tl newQuestions
       \<and> recoveryEffect (fetchQuestionsToQueue_resume pf (Inr newQuestions) s)
           = fetchQuestionsToQueue_resume pf (Inr newQuestions) s"
  using assms
  by (cases newQuestions)
     (simp_all add: fetchQuestionsToQueue_resume_def recoveryEffect_def Let_def)

theorem blocking_fetch_replaces_queue_witness:
  "pf_isInitialLoad \<lparr> pf_currentTopic = ''math'', pf_currentDiff = 50, pf_previousSubTopics = [],
                       pf_count = 5, pf_isInitialLoad = True, pf_sourceMaterial = None \<rparr>
   \<and> [fallbackQuestion\<lparr>q_text := ''N1''\<rparr>, fallbackQuestion\<lparr>q_text := ''N2''\<rparr>] \<noteq> []
   \<and> currentQuestion
        (fetchQuestionsToQueue_resume
           \<lparr> pf_currentTopic = ''math'', pf_currentDiff = 50, pf_previousSubTopics = [],
             pf_count = 5, pf_isInitialLoad = True, pf_sourceMaterial = None \<rparr>
           (Inr [fallbackQuestion\<lparr>q_text := ''N1''\<rparr>, fallbackQuestion\<lparr>q_text := ''N2''\<rparr>])
           (initialState\<lparr>questionQueue := [fallbackQuestion\<lparr>q_text := ''old''\<rparr>]\<rparr>))
       = Some (fallbackQuestion\<lparr>q_text := ''N1''\<rparr>)
   \<and> questionQueue
        (fetchQuestionsToQueue_resume
           \<lparr> pf_currentTopic = ''math'', pf_currentDiff = 50, pf_previousSubTopics = [],
             pf_count = 5, pf_isInitialLoad = True, pf_sourceMaterial = None \<rparr>
           (Inr [fallbackQuestion\<lparr>q_text := ''N1''\<rparr>, fallbackQuestion\<lparr>q_text := ''N2''\<rparr>])
           (initialState\<lparr>questionQueue := [fallbackQuestion\<lparr>q_text := ''old''\<rparr>]\<rparr>))
       = [fallbackQuestion\<lparr>q_text := ''N2''\<rparr>]"
  using blocking_fetch_replaces_queue
    [of "\<lparr> pf_currentTopic = ''math'', pf_currentDiff = 50, pf_previousSubTopics = [],
            pf_count = 5, pf_isInitialLoad = True, pf_sourceMaterial = None \<rparr>"
        "[fallbackQuestion\<lparr>q_text := ''N1''\<rparr>, fallbackQuestion\<lparr>q_text := ''N2''\<rparr>]"
        "initialState\<lparr>questionQueue := [fallbackQuestion\<lparr>q_text := ''old''\<rparr>]\<rparr>"]
  by simp

text \<open>In a reachable state with the guard set, one invocation is suspended, and its
  resumption, whatever it settled with, leaves the guard clear and nothing suspended.\<close>

lemma reachable_guard_released:
  assumes "reachable s" and "prefetchingRef s"
  shows "\<not> prefetchingRef (step (FetchResume result) s)
       \<and> inflight (step (FetchResume result) s) = []"
proof -
  from assms have inv: "flight_inv s" by (simp add: reachable_flight_inv)
  with assms(2) obtain pf where pf: "inflight s = [pf]"
    by (cases "inflight s") (auto simp: flight_inv_def)
  then show ?thesis
    by (simp add: step_def recoveryEffect_def fetchQuestionsToQueue_resume_def Let_def
             split: sum.splits)
qed

text \<open>
  C9. The resumption of a suspended fetch clears the guard on the success path and on the
  failure path alike, in particular with whatever \<open>generateAdaptiveQuestions\<close> settled
  with; after a failed fetch the next call passes the guard and reaches the content
  source.
\<close>

theorem fetch_guard_always_released:
  "prefetchingRef (fetchQuestionsToQueue_resume pf (Inr newQuestions) s) = False
   \<and> prefetchingRef (fetchQuestionsToQueue_resume pf (Inl e) s) = False
   \<and> prefetchingRef
        (fetchQuestionsToQueue_resume pf (generateAdaptiveQuestions apiKey outcome) s) = False
   \<and> inflight (fetchQuestionsToQueue hist currentTopic currentDiff count isInitialLoad
                  sourceMaterial (fetchQuestionsToQueue_resume pf (Inl e) s))
       = inflight s @
           [\<lparr> pf_currentTopic = currentTopic, pf_currentDiff = currentDiff,
              pf_previousSubTopics = map hi_question (slice_last5 hist), pf_count = count,
              pf_isInitialLoad = isInitialLoad, pf_sourceMaterial = sourceMaterial \<rparr>]"
proof -
  have g: "\<And>result. prefetchingRef (fetchQuestionsToQueue_resume pf result s) = False"
    by (simp add: fetchQuestionsToQueue_resume_def Let_def split: sum.splits)
  have i: "inflight (fetchQuestionsToQueue_resume pf (Inl e) s) = inflight s"
    by (simp add: fetchQuestionsToQueue_resume_def Let_def)
  from g i show ?thesis
    by (simp add: fetchQuestionsToQueue_def Let_def)
qed

section \<open>Refill trigger\<close>

text \<open>
  C4. An answer that is recorded (no feedback shown yet, a current question present)
  moves the level to \<open>calculateNewDifficulty\<close> of the old one and leaves the queue as it
  is. If the queue then holds at most 4 questions and the guard is clear, exactly one
  invocation is added to the suspended ones: a non-blocking request for 5 questions at the
  new level. If the guard is set or the queue holds more than 4, none is added.
\<close>

theorem handleAnswer_refill:
  assumes "\<not> feedbackShown s" and "currentQuestion s = Some q"
  shows "difficulty (handleAnswer index now s)
           = calculateNewDifficulty (difficulty s) (index = q_correctIndex q)
       \<and> length (history (handleAnswer index now s)) = length (history s) + 1
       \<and> questionQueue (handleAnswer index now s) = questionQueue s
       \<and> (length (questionQueue s) \<le> 4 \<and> \<not> prefetchingRef s \<longrightarrow>
            inflight (handleAnswer index now s) = inflight s @
              [\<lparr> pf_currentTopic = queryTopic s,
                 pf_currentDiff = calculateNewDifficulty (difficulty s) (index = q_correctIndex q),
                 pf_previousSubTopics = map hi_question (slice_last5 (history s)),
                 pf_count = 5, pf_isInitialLoad = False,
                 pf_sourceMaterial = or_undefined (activeMaterialContext s) \<rparr>]
            \<and> isPrefetching (handleAnswer index now s)
            \<and> isLoadingInitial (handleAnswer index now s) = isLoadingInitial s)
       \<and> (prefetchingRef s \<or> length (questionQueue s) > 4 \<longrightarrow>
            inflight (handleAnswer index now s) = inflight s)"
  using assms
  by (simp add: handleAnswer_def fetchQuestionsToQueue_def Let_def)

text \<open>The witness: the first answer of a quiz (queue empty, guard clear) starts a refill
  at level 55; a second answer given while that refill is in flight starts none.\<close>

theorem handleAnswer_refill_witness:
  "\<not> feedbackShown (run [SetTopic ''math'', StartQuiz None None,
                          FetchResume (Inr [fallbackQuestion])] initialState)
   \<and> currentQuestion (run [SetTopic ''math'', StartQuiz None None,
                            FetchResume (Inr [fallbackQuestion])] initialState)
       = Some fallbackQuestion
   \<and> inflight (handleAnswer 0 7 (run [SetTopic ''math'', StartQuiz None None,
                                      FetchResume (Inr [fallbackQuestion])] initialState))
       = [\<lparr> pf_currentTopic = ''math'', pf_currentDiff = 55, pf_previousSubTopics = [],
            pf_count = 5, pf_isInitialLoad = False, pf_sourceMaterial = None \<rparr>]
   \<and> \<not> feedbackShown (run [SetTopic ''math'', StartQuiz None None,
                            FetchResume (Inr [fallbackQuestion]), Answer 0 7,
                            FetchResume (Inr [fallbackQuestion, fallbackQuestion]), Next,
                            Answer 1 8, Next] initialState)
   \<and> prefetchingRef (run [SetTopic ''math'', StartQuiz None None,
                           FetchResume (Inr [fallbackQuestion]), Answer 0 7,
                           FetchResume (Inr [fallbackQuestion, fallbackQuestion]), Next,
                           Answer 1 8, Next] initialState)
   \<and> inflight (handleAnswer 0 9 (run [SetTopic ''math'', StartQuiz None None,
                                      FetchResume (Inr [fallbackQuestion]), Answer 0 7,
                                      FetchResume (Inr [fallbackQuestion, fallbackQuestion]), Next,
                                      Answer 1 8, Next] initialState))
       = inflight (run [SetTopic ''math'', StartQuiz None None,
                        FetchResume (Inr [fallbackQuestion]), Answer 0 7,
                        FetchResume (Inr [fallbackQuestion, fallbackQuestion]), Next,
                        Answer 1 8, Next] initialState)"
proof -
  let ?s = "run [SetTopic ''math'', StartQuiz None None,
                 FetchResume (Inr [fallbackQuestion])] initialState"
  let ?t = "run [SetTopic ''math'', StartQuiz None None,
                 FetchResume (Inr [fallbackQuestion]), Answer 0 7,
                 FetchResume (Inr [fallbackQuestion, fallbackQuestion]), Next,
                 Answer 1 8, Next] initialState"
  have d: "calculateNewDifficulty 50 True = 55"
    using calculateNewDifficulty_examples by simp
  have s1: "\<not> feedbackShown ?s" and s2: "currentQuestion ?s = Some fallbackQuestion"
    and s3: "questionQueue ?s = []" and s4: "\<not> prefetchingRef ?s" and s5: "inflight ?s = []"
    and s6: "difficulty ?s = 50" and s7: "queryTopic ?s = ''math''" and s8: "history ?s = []"
    and s9: "activeMaterialContext ?s = None"
    by (simp_all add: eval_defs)
  have t1: "\<not> feedbackShown ?t" and t2: "currentQuestion ?t = Some fallbackQuestion"
    and t3: "prefetchingRef ?t"
    by (simp_all add: eval_defs fallbackQuestion_def d)
  from handleAnswer_refill [OF s1 s2, of 0 7] handleAnswer_refill [OF t1 t2, of 0 9]
       s1 s2 s3 s4 s5 s6 s7 s8 s9 t1 t3 d
  show ?thesis
    by (simp add: fallbackQuestion_def slice_last5_def or_undefined_def)
qed


section \<open>Failure fallback\<close>

text \<open>
  C5, as the code has it. With an API key configured, a failure of the content-source
  call (the call rejects, the response has no text, or the text does not parse) yields
  the one-element batch holding the fixed fallback question, and a reply that parses is
  returned as it is.
\<close>

theorem generateAdaptiveQuestions_fallback:
  assumes "apiKey \<noteq> []"
  shows "generateAdaptiveQuestions apiKey (Rejects e) = Inr [fallbackQuestion]
       \<and> generateAdaptiveQuestions apiKey NoText = Inr [fallbackQuestion]
       \<and> generateAdaptiveQuestions apiKey (BadJson responseText e) = Inr [fallbackQuestion]
       \<and> generateAdaptiveQuestions apiKey (Json responseText questionsData) = Inr questionsData
       \<and> length [fallbackQuestion] = 1"
  using assms by (simp add: generateAdaptiveQuestions_def generateAdaptiveQuestions_try_def)

theorem generateAdaptiveQuestions_fallback_witness:
  "''key'' \<noteq> []
   \<and> generateAdaptiveQuestions ''key'' (Rejects (Error ''network'')) = Inr [fallbackQuestion]
   \<and> generateAdaptiveQuestions ''key'' NoText = Inr [fallbackQuestion]
   \<and> generateAdaptiveQuestions ''key'' (BadJson ''<html>'' (Error ''Unexpected token''))
       = Inr [fallbackQuestion]"
  using generateAdaptiveQuestions_fallback [of "''key''" "Error ''network''"]
        generateAdaptiveQuestions_fallback [of "''key''" "Error ''Unexpected token''" "''<html>''"]
  by simp

text \<open>
  C5 as stated fails without an API key: the request throws before the \<open>try\<close> block,
  no fallback is substituted, and the blocking fetch that asked for the batch ends with
  the queue empty and no current question.
\<close>

theorem generateAdaptiveQuestions_no_key_counterexample:
  "generateAdaptiveQuestions [] (Rejects (Error ''network'')) = Inl (Error ''API Key is missing.'')
   \<and> currentQuestion
        (run [SetTopic ''math'', StartQuiz None None,
              FetchResume (generateAdaptiveQuestions [] (Rejects (Error ''network'')))]
           initialState) = None
   \<and> questionQueue
        (run [SetTopic ''math'', StartQuiz None None,
              FetchResume (generateAdaptiveQuestions [] (Rejects (Error ''network'')))]
           initialState) = []
   \<and> inflight
        (run [SetTopic ''math'', StartQuiz None None,
              FetchResume (generateAdaptiveQuestions [] (Rejects (Error ''network'')))]
           initialState) = []"
  by (simp add: generateAdaptiveQuestions_def eval_defs)

section \<open>Plan progression\<close>

text \<open>
  C8. With day \<open>k\<close> active, \<open>handleCompletePlanDay\<close> keeps the plan's length and order;
  an entry whose day number is \<open>k\<close> changes only in its status, which becomes completed;
  an entry whose day number is \<open>k + 1\<close> changes only in its status, which becomes
  current; every other entry is unchanged. So when no entry has day number \<open>k + 1\<close>,
  only day \<open>k\<close> changes.
\<close>

theorem handleCompletePlanDay_frame:
  assumes "activePlanDay s = Some k" and "i < length (studyPlan s)"
  shows "length (studyPlan (handleCompletePlanDay s)) = length (studyPlan s)
       \<and> (pd_day (studyPlan s ! i) = k \<longrightarrow>
            studyPlan (handleCompletePlanDay s) ! i
              = (studyPlan s ! i)\<lparr>pd_status := Some Completed\<rparr>)
       \<and> (pd_day (studyPlan s ! i) \<noteq> k \<and> pd_day (studyPlan s ! i) = k + 1 \<longrightarrow>
            studyPlan (handleCompletePlanDay s) ! i
              = (studyPlan s ! i)\<lparr>pd_status := Some Current\<rparr>)
       \<and> (pd_day (studyPlan s ! i) \<noteq> k \<and> pd_day (studyPlan s ! i) \<noteq> k + 1 \<longrightarrow>
            studyPlan (handleCompletePlanDay s) ! i = studyPlan s ! i)"
  using assms by (simp add: handleCompletePlanDay_def Let_def)

theorem handleCompletePlanDay_frame_witness:
  "activePlanDay
     (initialState\<lparr>activePlanDay := Some 2,
        studyPlan :=
          [\<lparr>pd_day = 1, pd_topic = ''a'', pd_activities = [], pd_focus = ''f1'', pd_status = Some Completed\<rparr>,
           \<lparr>pd_day = 2, pd_topic = ''b'', pd_activities = [], pd_focus = ''f2'', pd_status = Some Current\<rparr>,
           \<lparr>pd_day = 3, pd_topic = ''c'', pd_activities = [], pd_focus = ''f3'', pd_status = Some Locked\<rparr>,
           \<lparr>pd_day = 4, pd_topic = ''d'', pd_activities = [], pd_focus = ''f4'', pd_status = Some Locked\<rparr>]\<rparr>)
     = Some 2
   \<and> map pd_status (studyPlan (handleCompletePlanDay
     (initialState\<lparr>activePlanDay := Some 2,
        studyPlan :=
          [\<lparr>pd_day = 1, pd_topic = ''a'', pd_activities = [], pd_focus = ''f1'', pd_status = Some Completed\<rparr>,
           \<lparr>pd_day = 2, pd_topic = ''b'', pd_activities = [], pd_focus = ''f2'', pd_status = Some Current\<rparr>,
           \<lparr>pd_day = 3, pd_topic = ''c'', pd_activities = [], pd_focus = ''f3'', pd_status = Some Locked\<rparr>,
           \<lparr>pd_day = 4, pd_topic = ''d'', pd_activities = [], pd_focus = ''f4'', pd_status = Some Locked\<rparr>]\<rparr>)))
     = [Some Completed, Some Completed, Some Current, Some Locked]"
proof -
  let ?s = "initialState\<lparr>activePlanDay := Some 2,
        studyPlan :=
          [\<lparr>pd_day = 1, pd_topic = ''a'', pd_activities = [], pd_focus = ''f1'', pd_status = Some Completed\<rparr>,
           \<lparr>pd_day = 2, pd_topic = ''b'', pd_activities = [], pd_focus = ''f2'', pd_status = Some Current\<rparr>,
           \<lparr>pd_day = 3, pd_topic = ''c'', pd_activities = [], pd_focus = ''f3'', pd_status = Some Locked\<rparr>,
           \<lparr>pd_day = 4, pd_topic = ''d'', pd_activities = [], pd_focus = ''f4'', pd_status = Some Locked\<rparr>]\<rparr>"
  have a: "activePlanDay ?s = Some 2" by simp
  have l: "length (studyPlan ?s) = 4" by simp
  have i0: "0 < length (studyPlan ?s)" and i1: "1 < length (studyPlan ?s)"
    and i2: "2 < length (studyPlan ?s)" and i3: "3 < length (studyPlan ?s)"
    by simp_all
  note f = handleCompletePlanDay_frame [OF a i0] handleCompletePlanDay_frame [OF a i1]
           handleCompletePlanDay_frame [OF a i2] handleCompletePlanDay_frame [OF a i3]
  have len: "length (studyPlan (handleCompletePlanDay ?s)) = 4" using f(1) by simp
  have e0: "pd_status (studyPlan (handleCompletePlanDay ?s) ! 0) = Some Completed"
    using f(1) by simp
  have e1: "pd_status (studyPlan (handleCompletePlanDay ?s) ! 1) = Some Completed"
    using f(2) by simp
  have e2: "pd_status (studyPlan (handleCompletePlanDay ?s) ! 2) = Some Current"
    using f(3) by simp
  have e3: "pd_status (studyPlan (handleCompletePlanDay ?s) ! 3) = Some Locked"
    using f(4) by simp
  have "map pd_status (studyPlan (handleCompletePlanDay ?s))
          = [Some Completed, Some Completed, Some Current, Some Locked]"
    using len e0 e1 e2 e3
    by (intro nth_equalityI) (auto simp: less_Suc_eq numeral_eq_Suc)
  with a show ?thesis by simp
qed

text \<open>A start request on a locked day changes nothing.\<close>

lemma handleStartPlanDay_locked:
  "pd_status d = Some Locked \<Longrightarrow> handleStartPlanDay d s = s"
  by (simp add: handleStartPlanDay_def)

text \<open>An unlocked day is entered: it becomes the active day and the material view opens.\<close>

lemma handleStartPlanDay_unlocked:
  "pd_status d \<noteq> Some Locked \<Longrightarrow>
     activePlanDay (handleStartPlanDay d s) = Some (pd_day d)
     \<and> status (handleStartPlanDay d s) = MATERIAL_VIEW
     \<and> studyPlan (handleStartPlanDay d s) = studyPlan s"
  by (simp add: handleStartPlanDay_def)

text \<open>The button labelled as completing the day is only rendered once three answers are
  recorded.\<close>

lemma completeDayButton_gate:
  "completeDayButton_rendered s \<Longrightarrow> 3 \<le> length (history s)"
  by (simp add: completeDayButton_rendered_def)

text \<open>
  C6 at its failing input. A two-day plan is created, day 1 is started, its material is
  read and its quiz begun; no question has been answered, so the completion button is not
  rendered. The side-column button, labelled as giving up, calls
  \<open>handleCompletePlanDay\<close> all the same: day 1 ends completed and day 2 current.
\<close>

theorem abandon_marks_plan_day_completed:
  "history (run [SetTopic ''math'', CreatePlan,
                 CreatePlanResume (Inr
                   [\<lparr>pd_day = 1, pd_topic = ''intro'', pd_activities = [], pd_focus = ''basics'', pd_status = None\<rparr>,
                    \<lparr>pd_day = 2, pd_topic = ''more'', pd_activities = [], pd_focus = ''depth'', pd_status = None\<rparr>]),
                 StartPlanDay
                   \<lparr>pd_day = 1, pd_topic = ''intro'', pd_activities = [], pd_focus = ''basics'', pd_status = Some Current\<rparr>,
                 StartPlanDayResume (Inr ''notes''),
                 StartQuiz (Some ''math: intro'') (Some ''notes'')] initialState) = []
   \<and> completeDayButton_rendered
        (run [SetTopic ''math'', CreatePlan,
              CreatePlanResume (Inr
                [\<lparr>pd_day = 1, pd_topic = ''intro'', pd_activities = [], pd_focus = ''basics'', pd_status = None\<rparr>,
                 \<lparr>pd_day = 2, pd_topic = ''more'', pd_activities = [], pd_focus = ''depth'', pd_status = None\<rparr>]),
              StartPlanDay
                \<lparr>pd_day = 1, pd_topic = ''intro'', pd_activities = [], pd_focus = ''basics'', pd_status = Some Current\<rparr>,
              StartPlanDayResume (Inr ''notes''),
              StartQuiz (Some ''math: intro'') (Some ''notes'')] initialState) = False
   \<and> map pd_status (studyPlan
        (run [SetTopic ''math'', CreatePlan,
              CreatePlanResume (Inr
                [\<lparr>pd_day = 1, pd_topic = ''intro'', pd_activities = [], pd_focus = ''basics'', pd_status = None\<rparr>,
                 \<lparr>pd_day = 2, pd_topic = ''more'', pd_activities = [], pd_focus = ''depth'', pd_status = None\<rparr>]),
              StartPlanDay
                \<lparr>pd_day = 1, pd_topic = ''intro'', pd_activities = [], pd_focus = ''basics'', pd_status = Some Current\<rparr>,
              StartPlanDayResume (Inr ''notes''),
              StartQuiz (Some ''math: intro'') (Some ''notes'')] initialState))
       = [Some Current, Some Locked]
   \<and> map pd_status (studyPlan
        (run [SetTopic ''math'', CreatePlan,
              CreatePlanResume (Inr
                [\<lparr>pd_day = 1, pd_topic = ''intro'', pd_activities = [], pd_focus = ''basics'', pd_status = None\<rparr>,
                 \<lparr>pd_day = 2, pd_topic = ''more'', pd_activities = [], pd_focus = ''depth'', pd_status = None\<rparr>]),
              StartPlanDay
                \<lparr>pd_day = 1, pd_topic = ''intro'', pd_activities = [], pd_focus = ''basics'', pd_status = Some Current\<rparr>,
              StartPlanDayResume (Inr ''notes''),
              StartQuiz (Some ''math: intro'') (Some ''notes''),
              SidebarExit] initialState))
       = [Some Completed, Some Current]"
  by (simp add: eval_defs completeDayButton_rendered_def)


end
